theory Spec2Isabelle
  imports Complex_Main "HOL-Library.Multiset"
begin

section \<open>The continuous learning engine of \<^verbatim>\<open>services/continuous_learning.py\<close>\<close>

text \<open>
  The theory embeds the class \<^verbatim>\<open>ContinuousLearningEngine\<close>: its task queue, its worker,
  its model registry, its performance metrics and its auto-scheduler. Every method becomes
  a function on an explicit engine state. Three things of the Python run time are made
  explicit:
  \<^item> exceptions are values of type \<open>exc\<close>: a strategy returns either the exception it
    raises or the engine it has updated, and a queue operation returns the exception, if
    any, next to the list as it is left;
  \<^item> Python floats are read as real numbers;
  \<^item> the numpy kernels, the clock and the file system are inputs: a record of type
    \<open>backend\<close> says what they deliver while one task is executed.
  A leading underscore of a Python name is dropped (\<^verbatim>\<open>_siftdown\<close> is \<open>siftdown\<close>).
\<close>

subsection \<open>Exceptions\<close>

datatype exc = TypeError | UnboundLocalError | IndexError | KeyError | ZeroDivisionError
  | OtherError string

subsection \<open>Data model (lines 14--28)\<close>

datatype LearningMode = SUPERVISED | UNSUPERVISED | REINFORCEMENT | TRANSFER

text \<open>The \<^verbatim>\<open>.value\<close> of the enumeration members.\<close>

fun mode_value :: "LearningMode \<Rightarrow> string" where
  "mode_value SUPERVISED = ''supervised''"
| "mode_value UNSUPERVISED = ''unsupervised''"
| "mode_value REINFORCEMENT = ''reinforcement''"
| "mode_value TRANSFER = ''transfer''"

text \<open>The values the code stores in a task's parameter dictionary.\<close>

datatype pyobj = PyFloat real | PyStr string

text \<open>
  The dataclass \<^verbatim>\<open>LearningTask\<close>. It is declared without \<^verbatim>\<open>order=True\<close>: Python
  generates \<^verbatim>\<open>__eq__\<close> (field-wise equality, which is equality of records here) and
  no \<^verbatim>\<open>__lt__\<close>.
\<close>

record LearningTask =
  task_id :: string
  dataset_name :: string
  learning_mode :: LearningMode
  priority :: int
  parameters :: "(string \<times> pyobj) list"
  created_at :: real
  status :: string

text \<open>One entry of \<^verbatim>\<open>dataset_registry\<close> (lines 52--88).\<close>

record dataset_info =
  info_type :: string
  features :: nat
  classes :: nat
  samples :: nat
  info_learning_mode :: LearningMode

text \<open>
  A network is the dictionary with the keys \<^verbatim>\<open>W1\<close>, \<^verbatim>\<open>b1\<close>, \<^verbatim>\<open>W2\<close>, \<^verbatim>\<open>b2\<close> that
  \<^verbatim>\<open>_create_neural_network\<close> builds; \<open>'a\<close> is the type of numpy arrays.
\<close>

record 'a nn =
  W1 :: 'a
  b1 :: 'a
  W2 :: 'a
  b2 :: 'a

text \<open>
  An entry of \<^verbatim>\<open>model_registry\<close>. The four strategies store dictionaries with different
  keys; a key that a strategy does not write is \<open>None\<close>. So \<^verbatim>\<open>'model' in model_info\<close> is
  \<open>mi_model model_info \<noteq> None\<close> and \<^verbatim>\<open>'accuracy' in model_info\<close> is
  \<open>mi_accuracy model_info \<noteq> None\<close>.
\<close>

record 'a model_info =
  mi_model :: "'a nn option"
  mi_centroids :: "'a option"
  mi_reduced_features :: "'a option"
  mi_q_table :: "'a option"
  mi_source_model :: "string option"
  mi_dataset :: string
  mi_accuracy :: "real option"
  mi_created_at :: real

text \<open>An entry of \<^verbatim>\<open>performance_metrics\<close> (lines 450--456).\<close>

record metrics =
  pm_accuracy :: real
  pm_dataset :: string
  pm_learning_mode :: string
  pm_created_at :: real
  pm_human_intelligence_contribution :: real

text \<open>What \<^verbatim>\<open>_load_dataset\<close> returns (lines 190--196).\<close>

record 'a dataset =
  X_train :: 'a
  y_train :: "nat list"
  X_test :: 'a
  y_test :: "nat list"
  info :: dataset_info

subsection \<open>Python dictionaries\<close>

text \<open>
  A dictionary keeps its keys in insertion order, and both \<^verbatim>\<open>_find_similar_model\<close> and
  \<^verbatim>\<open>_get_dataset_accuracy\<close> return the first entry that matches. A dictionary is
  therefore an association list; \<^verbatim>\<open>d[k] = v\<close> replaces the value of a key that is
  present where it stands, and appends a new key.
\<close>

fun dict_set :: "('k \<times> 'v) list \<Rightarrow> 'k \<Rightarrow> 'v \<Rightarrow> ('k \<times> 'v) list" where
  "dict_set [] k v = [(k, v)]"
| "dict_set ((k', v') # d) k v =
     (if k' = k then (k, v) # d else (k', v') # dict_set d k v)"

subsection \<open>The clock and the task identifier (line 113)\<close>

text \<open>
  One call of \<^verbatim>\<open>add_learning_task\<close> reads the clock twice: \<^verbatim>\<open>time.time()\<close>, seconds
  since the epoch as a float, and \<^verbatim>\<open>datetime.now()\<close>.
\<close>

record clock =
  time_time :: real
  datetime_now :: real

text \<open>\<^verbatim>\<open>int(x)\<close> of a float truncates towards zero.\<close>

definition int_of_float :: "real \<Rightarrow> int" where
  "int_of_float x = (if 0 \<le> x then \<lfloor>x\<rfloor> else \<lceil>x\<rceil>)"

text \<open>The decimal digits of an integer, as an f-string prints it.\<close>

fun str_nat :: "nat \<Rightarrow> string" where
  "str_nat n =
     (if n < 10 then [''0123456789'' ! n]
      else str_nat (n div 10) @ [''0123456789'' ! (n mod 10)])"

definition str_int :: "int \<Rightarrow> string" where
  "str_int i = (if i < 0 then CHR ''-'' # str_nat (nat (- i)) else str_nat (nat i))"

text \<open>
  The task that \<^verbatim>\<open>add_learning_task\<close> builds (lines 112--119); \<^verbatim>\<open>parameters or {}\<close>
  replaces \<^verbatim>\<open>None\<close> by the empty dictionary.
\<close>

definition new_task ::
  "clock \<Rightarrow> string \<Rightarrow> LearningMode \<Rightarrow> int \<Rightarrow> (string \<times> pyobj) list option \<Rightarrow> LearningTask" where
  "new_task c name mode prio params =
     \<lparr> task_id = name @ ''_'' @ str_int (int_of_float (time_time c)),
       dataset_name = name,
       learning_mode = mode,
       priority = prio,
       parameters = (case params of None \<Rightarrow> [] | Some p \<Rightarrow> p),
       created_at = datetime_now c,
       status = ''pending'' \<rparr>"

subsection \<open>The priority queue\<close>

text \<open>
  \<^verbatim>\<open>queue.PriorityQueue\<close> keeps its items in a list that the module \<^verbatim>\<open>heapq\<close> maintains
  as a binary heap: \<^verbatim>\<open>put\<close> is \<^verbatim>\<open>heappush\<close>, \<^verbatim>\<open>get\<close> is \<^verbatim>\<open>heappop\<close>. The engine queues
  the tuples \<^verbatim>\<open>(priority, task)\<close>, and the heap compares them with \<^verbatim>\<open><\<close>.

  Python compares two tuples at the first position where they differ. When the priorities
  differ they decide. When they are equal and the tasks differ, Python evaluates
  \<^verbatim>\<open>task < task\<close>, which raises \<^verbatim>\<open>TypeError\<close> since the dataclass defines no order. Two
  equal tuples are not less than one another.
\<close>

type_synonym item = "int \<times> LearningTask"

definition item_lt :: "item \<Rightarrow> item \<Rightarrow> exc + bool" where
  "item_lt a b =
     (if fst a \<noteq> fst b then Inr (fst a < fst b)
      else if snd a \<noteq> snd b then Inl TypeError
      else Inr False)"

text \<open>
  \<^verbatim>\<open>_siftdown(heap, startpos, pos)\<close> moves the item at \<open>pos\<close> towards the root while it is
  less than its parent. The functions follow CPython's implementation, which swaps in
  place: when a comparison raises, the list stays as it stands at that moment, and it is
  returned next to the exception.
\<close>

function siftdown :: "item list \<Rightarrow> nat \<Rightarrow> nat \<Rightarrow> exc option \<times> item list" where
  "siftdown heap startpos pos =
     (if length heap \<le> pos then (Some IndexError, heap)
      else if startpos < pos then
        (let parentpos = (pos - 1) div 2 in
         case item_lt (heap ! pos) (heap ! parentpos) of
           Inl e \<Rightarrow> (Some e, heap)
         | Inr False \<Rightarrow> (None, heap)
         | Inr True \<Rightarrow>
             siftdown (heap[parentpos := heap ! pos, pos := heap ! parentpos]) startpos parentpos)
      else (None, heap))"
  by pat_completeness auto
termination
  by (relation "measure (\<lambda>(heap, startpos, pos). pos)") auto

text \<open>
  \<^verbatim>\<open>_siftup(heap, pos)\<close> moves the smaller child up until a leaf is reached, then sifts
  the item that was at \<open>pos\<close> down from there.
\<close>

function siftup :: "item list \<Rightarrow> nat \<Rightarrow> nat \<Rightarrow> exc option \<times> item list" where
  "siftup heap startpos pos =
     (if pos < length heap div 2 then
        (let childpos = 2 * pos + 1 in
         if childpos + 1 < length heap then
           (case item_lt (heap ! childpos) (heap ! (childpos + 1)) of
              Inl e \<Rightarrow> (Some e, heap)
            | Inr lt \<Rightarrow>
                (let c = (if lt then childpos else childpos + 1) in
                 siftup (heap[c := heap ! pos, pos := heap ! c]) startpos c))
         else siftup (heap[childpos := heap ! pos, pos := heap ! childpos]) startpos childpos)
      else siftdown heap startpos pos)"
  by pat_completeness auto
termination
  by (relation "measure (\<lambda>(heap, startpos, pos). length heap - pos)") auto

definition heappush :: "item list \<Rightarrow> item \<Rightarrow> exc option \<times> item list" where
  "heappush heap x = siftdown (heap @ [x]) 0 (length heap)"

text \<open>
  \<^verbatim>\<open>heappop\<close> takes the last item off the list, puts it in place of the root and sifts
  it; the old root is what it returns. When a comparison raises, the old root is in
  neither the list nor the result.
\<close>

definition heappop :: "item list \<Rightarrow> (exc + item) \<times> item list" where
  "heappop heap =
     (if heap = [] then (Inl IndexError, heap)
      else
        (let lastelt = last heap; heap1 = butlast heap in
         if heap1 = [] then (Inr lastelt, heap1)
         else
           (let returnitem = heap1 ! 0 in
            case siftup (heap1[0 := lastelt]) 0 0 of
              (Some e, heap2) \<Rightarrow> (Inl e, heap2)
            | (None, heap2) \<Rightarrow> (Inr returnitem, heap2))))"

subsection \<open>The engine state (lines 37--95)\<close>

text \<open>
  The attributes of the engine that its methods read or write. \<open>learning_queue\<close> is the
  heap list of the priority queue, \<open>models_dir\<close> the files under \<^verbatim>\<open>models/\<close> (path and
  pickled dictionary). The learning rate and the batch size are used inside the numpy
  kernels only; logging writes to a file and a stream that no method reads, so the
  state has no log (the lines of the training loop are kept as a result of the loop).
\<close>

record 'a engine =
  learning_queue :: "item list"
  model_registry :: "(string \<times> 'a model_info) list"
  performance_metrics :: "(string \<times> metrics) list"
  human_intelligence_score :: real
  epochs_per_task :: nat
  dataset_registry :: "(string \<times> dataset_info) list"
  models_dir :: "(string \<times> 'a model_info) list"

text \<open>The state that \<^verbatim>\<open>__init__\<close> builds.\<close>

definition ContinuousLearningEngine :: "'a engine" where
  "ContinuousLearningEngine =
     \<lparr> learning_queue = [],
       model_registry = [],
       performance_metrics = [],
       human_intelligence_score = 0,
       epochs_per_task = 10,
       dataset_registry =
         [(''rice_msc'', \<lparr> info_type = ''classification'', features = 106, classes = 5,
             samples = 75000, info_learning_mode = SUPERVISED \<rparr>),
          (''human_faces'', \<lparr> info_type = ''detection'', features = 128, classes = 7,
             samples = 7200, info_learning_mode = SUPERVISED \<rparr>),
          (''cifar10'', \<lparr> info_type = ''classification'', features = 3072, classes = 10,
             samples = 60000, info_learning_mode = SUPERVISED \<rparr>),
          (''mnist'', \<lparr> info_type = ''classification'', features = 784, classes = 10,
             samples = 70000, info_learning_mode = SUPERVISED \<rparr>),
          (''imagenet'', \<lparr> info_type = ''classification'', features = 150528, classes = 1000,
             samples = 1400000, info_learning_mode = SUPERVISED \<rparr>)],
       models_dir = [] \<rparr>"

subsection \<open>Submitting a task (lines 109--122)\<close>

text \<open>
  \<^verbatim>\<open>add_learning_task\<close> builds the task and puts \<^verbatim>\<open>(priority, task)\<close> into the queue.
  It returns nothing; the result is the exception it raises, if any, and the engine.
\<close>

definition add_learning_task ::
  "'a engine \<Rightarrow> clock \<Rightarrow> string \<Rightarrow> LearningMode \<Rightarrow> int \<Rightarrow> (string \<times> pyobj) list option
     \<Rightarrow> exc option \<times> 'a engine" where
  "add_learning_task s c name mode prio params =
     (let task = new_task c name mode prio params;
          r = heappush (learning_queue s) (prio, task)
      in (fst r, s\<lparr>learning_queue := snd r\<rparr>))"

subsection \<open>The numpy kernels, the clock and the file system during one execution\<close>

text \<open>
  The strategies draw random numbers, multiply matrices and write a file. The embedding
  keeps none of the arithmetic: a \<open>backend\<close> gives the result of every such call while one
  task is executed, and each call may raise. \<open>backward_pass\<close> takes the epoch in which it
  is called, since every call draws fresh noise; it returns the network it has updated in
  place. \<open>synthetic_split\<close> is the body of \<^verbatim>\<open>_load_dataset\<close> after the registry lookup,
  \<open>q_learning\<close> the episode loop of \<^verbatim>\<open>_reinforcement_learning\<close>, \<open>copy_first_layer\<close> the
  block copy of \<^verbatim>\<open>_transfer_weights\<close>, \<open>now\<close> what \<^verbatim>\<open>datetime.now()\<close> returns when the
  strategy stores its result, and \<open>pickle_dump\<close> the outcome of writing the file of the
  given path (\<open>None\<close> when it is written).
\<close>

record 'a backend =
  synthetic_split :: "dataset_info \<Rightarrow> exc + 'a \<times> nat list \<times> 'a \<times> nat list"
  create_neural_network :: "nat \<Rightarrow> nat \<Rightarrow> exc + 'a nn"
  forward_pass :: "'a nn \<Rightarrow> 'a \<Rightarrow> exc + real list list"
  calculate_loss :: "real list list \<Rightarrow> nat list \<Rightarrow> exc + real"
  backward_pass :: "nat \<Rightarrow> 'a nn \<Rightarrow> exc + 'a nn"
  kmeans_clustering :: "'a \<Rightarrow> nat \<Rightarrow> exc + 'a"
  pca_reduction :: "'a \<Rightarrow> nat \<Rightarrow> exc + 'a"
  q_learning :: "nat \<Rightarrow> nat \<Rightarrow> exc + 'a"
  copy_first_layer :: "'a nn \<Rightarrow> 'a nn \<Rightarrow> exc + 'a nn"
  now :: real
  pickle_dump :: "string \<Rightarrow> exc option"

subsection \<open>Loading a dataset (lines 172--196)\<close>

text \<open>
  \<^verbatim>\<open>_load_dataset\<close> returns \<^verbatim>\<open>None\<close> for a name that is not in the registry, and the
  synthetic split otherwise.
\<close>

definition load_dataset :: "'a backend \<Rightarrow> 'a engine \<Rightarrow> string \<Rightarrow> exc + 'a dataset option" where
  "load_dataset B s name =
     (case map_of (dataset_registry s) name of
        None \<Rightarrow> Inr None
      | Some dataset_info \<Rightarrow>
          (case synthetic_split B dataset_info of
             Inl e \<Rightarrow> Inl e
           | Inr (xtr, ytr, xte, yte) \<Rightarrow>
               Inr (Some \<lparr> X_train = xtr, y_train = ytr, X_test = xte, y_test = yte,
                           info = dataset_info \<rparr>)))"

subsection \<open>Accuracy (lines 355--358)\<close>

text \<open>\<^verbatim>\<open>np.argmax\<close> of one row: the first position of the largest entry.\<close>

fun argmax_from :: "real list \<Rightarrow> nat \<Rightarrow> nat \<Rightarrow> real \<Rightarrow> nat" where
  "argmax_from [] i best m = best"
| "argmax_from (x # xs) i best m =
     (if m < x then argmax_from xs (i + 1) i x else argmax_from xs (i + 1) best m)"

definition argmax :: "real list \<Rightarrow> nat" where
  "argmax row = (case row of [] \<Rightarrow> 0 | x # xs \<Rightarrow> argmax_from xs 1 0 x)"

text \<open>
  \<^verbatim>\<open>_calculate_accuracy\<close>: the share of rows whose largest entry stands at the label.
  The predictions have one row per label.
\<close>

definition calculate_accuracy :: "real list list \<Rightarrow> nat list \<Rightarrow> real" where
  "calculate_accuracy predictions y =
     real (length (filter (\<lambda>(row, label). argmax row = label) (zip predictions y)))
       / real (length y)"

subsection \<open>Supervised learning (lines 198--231)\<close>

text \<open>Lines 221--222: the accuracy of a network on the held-out split.\<close>

definition test_accuracy_of :: "'a backend \<Rightarrow> 'a dataset \<Rightarrow> 'a nn \<Rightarrow> exc + real" where
  "test_accuracy_of B dataset model =
     (case forward_pass B model (X_test dataset) of
        Inl e \<Rightarrow> Inl e
      | Inr test_predictions \<Rightarrow> Inr (calculate_accuracy test_predictions (y_test dataset)))"

text \<open>
  The training loop over the epochs that are left. The local variable
  \<^verbatim>\<open>test_accuracy\<close> is unbound (\<open>None\<close>) until the first evaluation. An evaluation
  (lines 220--223) is made in the epochs whose number is divisible by five, after the
  update of that epoch: it computes the test accuracy, assigns it to the variable and
  logs one line with the epoch, the loss and the test accuracy. \<open>logged\<close> collects these
  lines, as triples, in the order in which they are written.
\<close>

fun training_loop ::
  "'a backend \<Rightarrow> 'a dataset \<Rightarrow> nat list \<Rightarrow> 'a nn \<Rightarrow> real option \<Rightarrow> (nat \<times> real \<times> real) list
     \<Rightarrow> exc + 'a nn \<times> real option \<times> (nat \<times> real \<times> real) list" where
  "training_loop B dataset [] model test_accuracy logged = Inr (model, test_accuracy, logged)"
| "training_loop B dataset (epoch # epochs) model test_accuracy logged =
     (case forward_pass B model (X_train dataset) of
        Inl e \<Rightarrow> Inl e
      | Inr predictions \<Rightarrow>
          (case calculate_loss B predictions (y_train dataset) of
             Inl e \<Rightarrow> Inl e
           | Inr loss \<Rightarrow>
               (case backward_pass B epoch model of
                  Inl e \<Rightarrow> Inl e
                | Inr model' \<Rightarrow>
                    if epoch mod 5 = 0 then
                      (case test_accuracy_of B dataset model' of
                         Inl e \<Rightarrow> Inl e
                       | Inr acc \<Rightarrow>
                           training_loop B dataset epochs model' (Some acc)
                             (logged @ [(epoch, loss, acc)]))
                    else training_loop B dataset epochs model' test_accuracy logged)))"

text \<open>
  The strategy stores the network as it stands after the loop together with the value
  of \<^verbatim>\<open>test_accuracy\<close>; reading the variable while it is unbound raises.
\<close>

definition supervised_learning ::
  "'a backend \<Rightarrow> 'a engine \<Rightarrow> LearningTask \<Rightarrow> 'a dataset \<Rightarrow> exc + 'a engine" where
  "supervised_learning B s task dataset =
     (case create_neural_network B (features (info dataset)) (classes (info dataset)) of
        Inl e \<Rightarrow> Inl e
      | Inr model \<Rightarrow>
          (case training_loop B dataset [0..<epochs_per_task s] model None [] of
             Inl e \<Rightarrow> Inl e
           | Inr (model', None, logged) \<Rightarrow> Inl UnboundLocalError
           | Inr (model', Some test_accuracy, logged) \<Rightarrow>
               Inr (s\<lparr>model_registry := dict_set (model_registry s) (task_id task)
                      \<lparr> mi_model = Some model', mi_centroids = None,
                        mi_reduced_features = None, mi_q_table = None,
                        mi_source_model = None, mi_dataset = dataset_name task,
                        mi_accuracy = Some test_accuracy, mi_created_at = now B \<rparr>\<rparr>)))"

subsection \<open>Unsupervised and reinforcement learning (lines 233--288)\<close>

definition unsupervised_learning ::
  "'a backend \<Rightarrow> 'a engine \<Rightarrow> LearningTask \<Rightarrow> 'a dataset \<Rightarrow> exc + 'a engine" where
  "unsupervised_learning B s task dataset =
     (let X = X_train dataset; k = min 10 (classes (info dataset)) in
      case kmeans_clustering B X k of
        Inl e \<Rightarrow> Inl e
      | Inr centroids \<Rightarrow>
          (case pca_reduction B X 50 of
             Inl e \<Rightarrow> Inl e
           | Inr reduced_features \<Rightarrow>
               Inr (s\<lparr>model_registry := dict_set (model_registry s) (task_id task)
                      \<lparr> mi_model = None, mi_centroids = Some centroids,
                        mi_reduced_features = Some reduced_features, mi_q_table = None,
                        mi_source_model = None, mi_dataset = dataset_name task,
                        mi_accuracy = None, mi_created_at = now B \<rparr>\<rparr>)))"

definition reinforcement_learning ::
  "'a backend \<Rightarrow> 'a engine \<Rightarrow> LearningTask \<Rightarrow> 'a dataset \<Rightarrow> exc + 'a engine" where
  "reinforcement_learning B s task dataset =
     (let state_size = features (info dataset); action_size = classes (info dataset) in
      case q_learning B state_size action_size of
        Inl e \<Rightarrow> Inl e
      | Inr q_table \<Rightarrow>
          Inr (s\<lparr>model_registry := dict_set (model_registry s) (task_id task)
                 \<lparr> mi_model = None, mi_centroids = None, mi_reduced_features = None,
                   mi_q_table = Some q_table, mi_source_model = None,
                   mi_dataset = dataset_name task, mi_accuracy = None,
                   mi_created_at = now B \<rparr>\<rparr>))"

subsection \<open>Transfer learning (lines 290--314, 411--435)\<close>

text \<open>
  \<^verbatim>\<open>_find_similar_model\<close>: the first entry of the registry, in insertion order, that was
  trained on another dataset and has the key \<^verbatim>\<open>'model'\<close>; the result carries its task
  identifier.
\<close>

definition find_similar_model :: "'a engine \<Rightarrow> string \<Rightarrow> (string \<times> 'a model_info) option" where
  "find_similar_model s name =
     find (\<lambda>(tid, model_info). mi_dataset model_info \<noteq> name \<and> mi_model model_info \<noteq> None)
       (model_registry s)"

definition transfer_weights ::
  "'a backend \<Rightarrow> string \<times> 'a model_info \<Rightarrow> 'a dataset \<Rightarrow> exc + 'a nn" where
  "transfer_weights B source_model dataset =
     (case create_neural_network B (features (info dataset)) (classes (info dataset)) of
        Inl e \<Rightarrow> Inl e
      | Inr new_model \<Rightarrow>
          (case mi_model (snd source_model) of
             None \<Rightarrow> Inr new_model
           | Some source_weights \<Rightarrow> copy_first_layer B new_model source_weights))"

text \<open>The fine-tuning loop (lines 303--306).\<close>

fun fine_tuning :: "'a backend \<Rightarrow> 'a dataset \<Rightarrow> nat list \<Rightarrow> 'a nn \<Rightarrow> exc + 'a nn" where
  "fine_tuning B dataset [] model = Inr model"
| "fine_tuning B dataset (epoch # epochs) model =
     (case forward_pass B model (X_train dataset) of
        Inl e \<Rightarrow> Inl e
      | Inr predictions \<Rightarrow>
          (case calculate_loss B predictions (y_train dataset) of
             Inl e \<Rightarrow> Inl e
           | Inr loss \<Rightarrow>
               (case backward_pass B epoch model of
                  Inl e \<Rightarrow> Inl e
                | Inr model' \<Rightarrow> fine_tuning B dataset epochs model')))"

text \<open>Without a source model the strategy does nothing and returns.\<close>

definition transfer_learning ::
  "'a backend \<Rightarrow> 'a engine \<Rightarrow> LearningTask \<Rightarrow> 'a dataset \<Rightarrow> exc + 'a engine" where
  "transfer_learning B s task dataset =
     (case find_similar_model s (dataset_name task) of
        None \<Rightarrow> Inr s
      | Some source_model \<Rightarrow>
          (case transfer_weights B source_model dataset of
             Inl e \<Rightarrow> Inl e
           | Inr transferred_model \<Rightarrow>
               (case fine_tuning B dataset [0..<5] transferred_model of
                  Inl e \<Rightarrow> Inl e
                | Inr model' \<Rightarrow>
                    Inr (s\<lparr>model_registry := dict_set (model_registry s) (task_id task)
                           \<lparr> mi_model = Some model', mi_centroids = None,
                             mi_reduced_features = None, mi_q_table = None,
                             mi_source_model = Some (fst source_model),
                             mi_dataset = dataset_name task, mi_accuracy = None,
                             mi_created_at = now B \<rparr>\<rparr>))))"

subsection \<open>Metrics and persistence (lines 437--471)\<close>

definition update_performance_metrics :: "'a engine \<Rightarrow> LearningTask \<Rightarrow> 'a engine" where
  "update_performance_metrics s task =
     (case map_of (model_registry s) (task_id task) of
        None \<Rightarrow> s
      | Some model_info \<Rightarrow>
          (let s1 =
                 (case mi_accuracy model_info of
                    None \<Rightarrow> s
                  | Some accuracy \<Rightarrow>
                      s\<lparr>human_intelligence_score :=
                          min 1 (human_intelligence_score s + accuracy * 0.1)\<rparr>)
           in s1\<lparr>performance_metrics := dict_set (performance_metrics s1) (task_id task)
                   \<lparr> pm_accuracy = (case mi_accuracy model_info of None \<Rightarrow> 0 | Some a \<Rightarrow> a),
                     pm_dataset = dataset_name task,
                     pm_learning_mode = mode_value (learning_mode task),
                     pm_created_at = mi_created_at model_info,
                     pm_human_intelligence_contribution =
                       (case mi_accuracy model_info of None \<Rightarrow> 0 | Some a \<Rightarrow> a * 0.1) \<rparr>\<rparr>))"

definition save_model :: "'a backend \<Rightarrow> 'a engine \<Rightarrow> LearningTask \<Rightarrow> exc + 'a engine" where
  "save_model B s task =
     (case map_of (model_registry s) (task_id task) of
        None \<Rightarrow> Inr s
      | Some model_info \<Rightarrow>
          (let model_path = ''models/'' @ task_id task @ ''.pkl'' in
           case pickle_dump B model_path of
             Some e \<Rightarrow> Inl e
           | None \<Rightarrow> Inr (s\<lparr>models_dir := dict_set (models_dir s) model_path model_info\<rparr>)))"

definition get_human_intelligence_score :: "'a engine \<Rightarrow> real" where
  "get_human_intelligence_score s = human_intelligence_score s"

subsection \<open>Executing a task (lines 137--170)\<close>

text \<open>The chain of \<^verbatim>\<open>if\<close>/\<^verbatim>\<open>elif\<close> that selects the strategy (lines 150--157).\<close>

definition run_strategy ::
  "'a backend \<Rightarrow> 'a engine \<Rightarrow> LearningTask \<Rightarrow> 'a dataset \<Rightarrow> exc + 'a engine" where
  "run_strategy B s task dataset =
     (case learning_mode task of
        SUPERVISED \<Rightarrow> supervised_learning B s task dataset
      | UNSUPERVISED \<Rightarrow> unsupervised_learning B s task dataset
      | REINFORCEMENT \<Rightarrow> reinforcement_learning B s task dataset
      | TRANSFER \<Rightarrow> transfer_learning B s task dataset)"

text \<open>
  \<^verbatim>\<open>_execute_learning_task\<close> sets the status to \<^verbatim>\<open>running\<close> and runs everything else
  inside \<^verbatim>\<open>try\<close>: an exception ends the task as \<^verbatim>\<open>failed\<close> with the engine as it was
  when the exception was raised; a dataset that is \<^verbatim>\<open>None\<close> ends the method with
  \<^verbatim>\<open>return\<close>. The result is the engine and the task object.
\<close>

definition execute_learning_task ::
  "'a backend \<Rightarrow> 'a engine \<Rightarrow> LearningTask \<Rightarrow> 'a engine \<times> LearningTask" where
  "execute_learning_task B s task0 =
     (let task = task0\<lparr>status := ''running''\<rparr> in
      case load_dataset B s (dataset_name task) of
        Inl e \<Rightarrow> (s, task\<lparr>status := ''failed''\<rparr>)
      | Inr None \<Rightarrow> (s, task)
      | Inr (Some dataset) \<Rightarrow>
          (case run_strategy B s task dataset of
             Inl e \<Rightarrow> (s, task\<lparr>status := ''failed''\<rparr>)
           | Inr s1 \<Rightarrow>
               (let s2 = update_performance_metrics s1 task in
                case save_model B s2 task of
                  Inl e \<Rightarrow> (s2, task\<lparr>status := ''failed''\<rparr>)
                | Inr s3 \<Rightarrow> (s3, task\<lparr>status := ''completed''\<rparr>))))"

subsection \<open>The worker (lines 124--135)\<close>

text \<open>
  One iteration of the loop of \<^verbatim>\<open>_learning_worker\<close>: when the queue is not empty it takes
  the next item and executes its task, otherwise it sleeps. An exception of \<^verbatim>\<open>get\<close> is
  caught and logged. The result is the engine and the task that was executed, if any.
\<close>

definition learning_worker_step :: "'a backend \<Rightarrow> 'a engine \<Rightarrow> 'a engine \<times> LearningTask option" where
  "learning_worker_step B s =
     (if learning_queue s \<noteq> [] then
        (case heappop (learning_queue s) of
           (Inl e, q) \<Rightarrow> (s\<lparr>learning_queue := q\<rparr>, None)
         | (Inr (prio, task), q) \<Rightarrow>
             (let r = execute_learning_task B (s\<lparr>learning_queue := q\<rparr>) task
              in (fst r, Some (snd r))))
      else (s, None))"

subsection \<open>The auto-scheduler (lines 483--534)\<close>

text \<open>
  \<^verbatim>\<open>_get_dataset_accuracy\<close> returns the accuracy of the first metrics entry, in insertion
  order, whose dataset is the given one, and 0.0 when there is none.
\<close>

definition get_dataset_accuracy :: "'a engine \<Rightarrow> string \<Rightarrow> real" where
  "get_dataset_accuracy s name =
     (case find (\<lambda>(tid, m). pm_dataset m = name) (performance_metrics s) of
        None \<Rightarrow> 0
      | Some (tid, m) \<Rightarrow> pm_accuracy m)"

text \<open>
  \<^verbatim>\<open>_are_datasets_compatible\<close> divides the smaller number of features by the larger one.
  Reading a name that is not registered raises \<^verbatim>\<open>KeyError\<close>.
\<close>

definition are_datasets_compatible :: "'a engine \<Rightarrow> string \<Rightarrow> string \<Rightarrow> exc + bool" where
  "are_datasets_compatible s dataset1 dataset2 =
     (case map_of (dataset_registry s) dataset1 of
        None \<Rightarrow> Inl KeyError
      | Some info1 \<Rightarrow>
          (case map_of (dataset_registry s) dataset2 of
             None \<Rightarrow> Inl KeyError
           | Some info2 \<Rightarrow>
               if max (features info1) (features info2) = 0 then Inl ZeroDivisionError
               else
                 (let feature_ratio =
                        real (min (features info1) (features info2))
                          / real (max (features info1) (features info2))
                  in Inr (0.5 < feature_ratio))))"

text \<open>
  The loops of the scheduler call \<^verbatim>\<open>add_learning_task\<close>, which reads the clock. The
  readings are inputs: \<open>clk dataset1 dataset2\<close> is the reading of the call made for that
  pair, and likewise \<open>clk name\<close> below. An exception leaves the loops at once.

  \<^verbatim>\<open>_schedule_transfer_learning\<close>: the inner loop runs over the names after
  \<^verbatim>\<open>dataset1\<close>, the outer loop over all names in the order of the registry.
\<close>

fun transfer_inner ::
  "(string \<Rightarrow> string \<Rightarrow> clock) \<Rightarrow> string \<Rightarrow> string list \<Rightarrow> 'a engine \<Rightarrow> exc option \<times> 'a engine" where
  "transfer_inner clk dataset1 [] s = (None, s)"
| "transfer_inner clk dataset1 (dataset2 # rest) s =
     (case are_datasets_compatible s dataset1 dataset2 of
        Inl e \<Rightarrow> (Some e, s)
      | Inr False \<Rightarrow> transfer_inner clk dataset1 rest s
      | Inr True \<Rightarrow>
          (case add_learning_task s (clk dataset1 dataset2) dataset2 TRANSFER 2
                  (Some [(''source_dataset'', PyStr dataset1)]) of
             (Some e, s') \<Rightarrow> (Some e, s')
           | (None, s') \<Rightarrow> transfer_inner clk dataset1 rest s'))"

fun transfer_outer ::
  "(string \<Rightarrow> string \<Rightarrow> clock) \<Rightarrow> string list \<Rightarrow> 'a engine \<Rightarrow> exc option \<times> 'a engine" where
  "transfer_outer clk [] s = (None, s)"
| "transfer_outer clk (dataset1 # rest) s =
     (case transfer_inner clk dataset1 rest s of
        (Some e, s') \<Rightarrow> (Some e, s')
      | (None, s') \<Rightarrow> transfer_outer clk rest s')"

definition schedule_transfer_learning ::
  "(string \<Rightarrow> string \<Rightarrow> clock) \<Rightarrow> 'a engine \<Rightarrow> exc option \<times> 'a engine" where
  "schedule_transfer_learning clk s = transfer_outer clk (map fst (dataset_registry s)) s"

text \<open>The first loop of \<^verbatim>\<open>auto_schedule_learning\<close> (lines 488--500).\<close>

fun schedule_remediation ::
  "(string \<Rightarrow> clock) \<Rightarrow> (string \<times> dataset_info) list \<Rightarrow> 'a engine \<Rightarrow> exc option \<times> 'a engine" where
  "schedule_remediation clk [] s = (None, s)"
| "schedule_remediation clk ((name, dataset_info) # rest) s =
     (let current_accuracy = get_dataset_accuracy s name in
      if current_accuracy < 0.8 then
        (case add_learning_task s (clk name) name (info_learning_mode dataset_info) 1
                (Some [(''target_accuracy'', PyFloat 0.8)]) of
           (Some e, s') \<Rightarrow> (Some e, s')
         | (None, s') \<Rightarrow> schedule_remediation clk rest s')
      else schedule_remediation clk rest s)"

definition auto_schedule_learning ::
  "(string \<Rightarrow> clock) \<Rightarrow> (string \<Rightarrow> string \<Rightarrow> clock) \<Rightarrow> 'a engine \<Rightarrow> exc option \<times> 'a engine" where
  "auto_schedule_learning clk1 clk2 s =
     (case schedule_remediation clk1 (dataset_registry s) s of
        (Some e, s') \<Rightarrow> (Some e, s')
      | (None, s') \<Rightarrow> schedule_transfer_learning clk2 s')"

subsection \<open>Histories of the engine\<close>

text \<open>
  The callers and the worker thread act on the engine one after the other: the queue
  operations hold the lock of the queue, and only the worker writes the registry, the
  metrics and the score. A history is a list of such actions, and \<open>run\<close> performs it.
  An exception of a submission goes to the caller; the engine stays as the call left it.
\<close>

datatype 'a event =
    Submit clock string LearningMode int "(string \<times> pyobj) list option"
  | AutoSchedule "string \<Rightarrow> clock" "string \<Rightarrow> string \<Rightarrow> clock"
  | WorkerStep "'a backend"

fun step :: "'a engine \<Rightarrow> 'a event \<Rightarrow> 'a engine" where
  "step s (Submit c name mode prio params) = snd (add_learning_task s c name mode prio params)"
| "step s (AutoSchedule clk1 clk2) = snd (auto_schedule_learning clk1 clk2 s)"
| "step s (WorkerStep B) = fst (learning_worker_step B s)"

fun run :: "'a event list \<Rightarrow> 'a engine \<Rightarrow> 'a engine" where
  "run [] s = s"
| "run (e # es) s = run es (step s e)"

subsection \<open>Vocabulary of the statements\<close>



text \<open>
  Two invariants of the histories, used in the proofs only: every accuracy in the model
  registry lies between 0 and 1, and so does the score.
\<close>

definition registry_ok :: "(string \<times> 'a model_info) list \<Rightarrow> bool" where
  "registry_ok reg =
     (\<forall>(k, mi) \<in> set reg. \<forall>a. mi_accuracy mi = Some a \<longrightarrow> 0 \<le> a \<and> a \<le> 1)"

definition score_ok :: "'a engine \<Rightarrow> bool" where
  "score_ok s =
     (0 \<le> human_intelligence_score s \<and> human_intelligence_score s \<le> 1
      \<and> registry_ok (model_registry s))"

subsection \<open>Concrete inputs\<close>

text \<open>
  The inputs of the concrete runs below. Arrays are single numbers. In \<open>sample_backend\<close>
  the split of every dataset has one training and one test sample of class 0, a new
  network has \<open>W1 = 0\<close>, every update adds one to \<open>W1\<close>, and a network predicts class 0
  while \<open>W1 \<le> 6\<close> and class 1 afterwards. The other backends differ from it in one call:
  the file cannot be written, the network cannot be allocated, the network always
  predicts class 1.
\<close>

definition clock_at :: "real \<Rightarrow> clock" where
  "clock_at t = \<lparr> time_time = t, datetime_now = t \<rparr>"

definition sample_backend :: "nat backend" where
  "sample_backend =
     \<lparr> synthetic_split = (\<lambda>dataset_info. Inr (0, [0], 0, [0])),
       create_neural_network =
         (\<lambda>input_size output_size. Inr \<lparr> W1 = 0, b1 = 0, W2 = 0, b2 = 0 \<rparr>),
       forward_pass = (\<lambda>model X. Inr [if W1 model \<le> 6 then [1, 0] else [0, 1]]),
       calculate_loss = (\<lambda>predictions y. Inr 0),
       backward_pass = (\<lambda>epoch model. Inr (model\<lparr>W1 := W1 model + 1\<rparr>)),
       kmeans_clustering = (\<lambda>X k. Inr 0),
       pca_reduction = (\<lambda>X n_components. Inr 0),
       q_learning = (\<lambda>state_size action_size. Inr 0),
       copy_first_layer =
         (\<lambda>new_model source_weights. Inr (new_model\<lparr>W1 := W1 source_weights\<rparr>)),
       now = 1700000100,
       pickle_dump = (\<lambda>model_path. None) \<rparr>"

definition failing_disk_backend :: "nat backend" where
  "failing_disk_backend =
     sample_backend\<lparr>pickle_dump := (\<lambda>model_path. Some (OtherError ''OSError''))\<rparr>"

definition out_of_memory_backend :: "nat backend" where
  "out_of_memory_backend =
     sample_backend\<lparr>create_neural_network :=
       (\<lambda>input_size output_size. Inl (OtherError ''MemoryError''))\<rparr>"

definition zero_accuracy_backend :: "nat backend" where
  "zero_accuracy_backend = sample_backend\<lparr>forward_pass := (\<lambda>model X. Inr [[0, 1]])\<rparr>"

definition fresh_engine :: "nat engine" where
  "fresh_engine = ContinuousLearningEngine"

definition rice_task :: LearningTask where
  "rice_task = new_task (clock_at 1700000000.25) ''rice_msc'' SUPERVISED 1 None"

definition rice_dataset :: "nat dataset" where
  "rice_dataset =
     \<lparr> X_train = 0, y_train = [0], X_test = 0, y_test = [0],
       info = \<lparr> info_type = ''classification'', features = 106, classes = 5,
                samples = 75000, info_learning_mode = SUPERVISED \<rparr> \<rparr>"

text \<open>A task for a dataset that the registry does not know.\<close>

definition unknown_task :: LearningTask where
  "unknown_task = new_task (clock_at 1700000000.25) ''fashion_mnist'' SUPERVISED 1 None"

text \<open>
  Two supervised tasks for \<^verbatim>\<open>rice_msc\<close>, submitted 200 seconds apart and executed: the
  first reaches accuracy 0, the second accuracy 1.
\<close>

definition two_rice_runs :: "nat event list" where
  "two_rice_runs =
     [Submit (clock_at 1700000000.25) ''rice_msc'' SUPERVISED 1 None,
      WorkerStep zero_accuracy_backend,
      Submit (clock_at 1700000200.5) ''rice_msc'' SUPERVISED 1 None,
      WorkerStep sample_backend]"


text \<open>The engine with one transfer task of priority 2 in its queue.\<close>

definition one_transfer_queued :: "nat engine" where
  "one_transfer_queued =
     snd (add_learning_task fresh_engine (clock_at 1700000000.25) ''mnist'' TRANSFER 2 None)"

text \<open>The engine after \<open>rice_task\<close> has been trained with \<open>sample_backend\<close>.\<close>

definition rice_trained :: "nat engine" where
  "rice_trained =
     fresh_engine\<lparr>model_registry :=
       [(''rice_msc_1700000000'',
         \<lparr> mi_model = Some \<lparr> W1 = 10, b1 = 0, W2 = 0, b2 = 0 \<rparr>, mi_centroids = None,
           mi_reduced_features = None, mi_q_table = None, mi_source_model = None,
           mi_dataset = ''rice_msc'', mi_accuracy = Some 1, mi_created_at = 1700000100 \<rparr>)]\<rparr>"

definition mnist_transfer_task :: LearningTask where
  "mnist_transfer_task = new_task (clock_at 1700000000.75) ''mnist'' TRANSFER 2 None"

definition mnist_dataset :: "nat dataset" where
  "mnist_dataset =
     \<lparr> X_train = 0, y_train = [0], X_test = 0, y_test = [0],
       info = \<lparr> info_type = ''classification'', features = 784, classes = 10,
                samples = 70000, info_learning_mode = SUPERVISED \<rparr> \<rparr>"

section \<open>Proofs\<close>

text \<open>
  The recursive equations of the heap functions and of \<open>str_nat\<close> are unfolded on demand
  only: each applies to its own right-hand side.
\<close>

declare str_nat.simps [simp del] siftdown.simps [simp del] siftup.simps [simp del]

text \<open>The equations that evaluate the concrete runs.\<close>

lemmas queue_eval = add_learning_task_def heappush_def heappop_def new_task_def item_lt_def
  siftdown.simps siftup.simps int_of_float_def str_int_def str_nat.simps clock_at_def Let_def

lemmas engine_eval = ContinuousLearningEngine_def fresh_engine_def sample_backend_def
  failing_disk_backend_def out_of_memory_backend_def zero_accuracy_backend_def
  rice_task_def rice_dataset_def unknown_task_def one_transfer_queued_def rice_trained_def
  mnist_transfer_task_def mnist_dataset_def
  execute_learning_task_def load_dataset_def run_strategy_def supervised_learning_def
  transfer_learning_def find_similar_model_def test_accuracy_of_def calculate_accuracy_def
  argmax_def update_performance_metrics_def save_model_def learning_worker_step_def
  get_human_intelligence_score_def upt_conv_Cons

lemmas scheduler_eval = get_dataset_accuracy_def auto_schedule_learning_def
  schedule_transfer_learning_def are_datasets_compatible_def

subsection \<open>Dictionaries\<close>


lemma set_dict_set: "set (dict_set d k v) \<subseteq> insert (k, v) (set d)"
  by (induction d k v rule: dict_set.induct) auto


subsection \<open>The queue: ties, and submissions without a tie\<close>

text \<open>
  Claim C1. For tasks pending in the queue the lower priority is dequeued first and, among
  equal priorities, the earlier creation time; submitting two tasks of equal priority
  never makes the queue operations fail. The code breaks the last part: on a fresh engine
  the first submission at priority 1 returns, and a second submission at priority 1, for
  another dataset, raises \<^verbatim>\<open>TypeError\<close> inside \<^verbatim>\<open>put\<close>, because the heap compares the
  two tuples and their priorities tie.
\<close>

theorem equal_priority_submission_raises:
  "fst (add_learning_task fresh_engine (clock_at 1700000000.25) ''rice_msc'' SUPERVISED 1 None) = None
   \<and> fst (add_learning_task
           (snd (add_learning_task fresh_engine (clock_at 1700000000.25) ''rice_msc'' SUPERVISED 1 None))
           (clock_at 1700000000.5) ''human_faces'' SUPERVISED 1 None) = Some TypeError"
  by (simp add: queue_eval engine_eval)


text \<open>
  With distinct priorities the queue serves the lower one first: a task submitted at
  priority 2 and then one at priority 1 are taken by the worker in the order 1, 2.
\<close>

lemma priority_overrides_submission_order:
  "map (\<lambda>x. (fst x, dataset_name (snd x)))
       (learning_queue (run [Submit (clock_at 1700000000.25) ''mnist'' SUPERVISED 2 None,
                             Submit (clock_at 1700000001.25) ''cifar10'' SUPERVISED 1 None]
                          fresh_engine))
     = [(1, ''cifar10''), (2, ''mnist'')]
   \<and> map_option dataset_name
        (snd (learning_worker_step sample_backend
           (run [Submit (clock_at 1700000000.25) ''mnist'' SUPERVISED 2 None,
                 Submit (clock_at 1700000001.25) ''cifar10'' SUPERVISED 1 None] fresh_engine)))
       = Some ''cifar10''
   \<and> map_option dataset_name
        (snd (learning_worker_step sample_backend
           (run [Submit (clock_at 1700000000.25) ''mnist'' SUPERVISED 2 None,
                 Submit (clock_at 1700000001.25) ''cifar10'' SUPERVISED 1 None,
                 WorkerStep sample_backend] fresh_engine)))
       = Some ''mnist''"
  by (simp add: queue_eval engine_eval)


text \<open>
  When no queued item has the priority of the new item, no comparison of \<open>siftdown\<close>
  ties, so it returns and the heap holds the same items.
\<close>

lemma siftdown_no_tie:
  assumes "pos < length heap"
    and "\<forall>i < length heap. i \<noteq> pos \<longrightarrow> fst (heap ! i) \<noteq> fst (heap ! pos)"
  shows "\<exists>heap'. siftdown heap startpos pos = (None, heap') \<and> mset heap' = mset heap"
  using assms
proof (induction heap startpos pos rule: siftdown.induct)
  case (1 heap startpos pos)
  show ?case
  proof (cases "startpos < pos")
    case False
    with "1.prems" show ?thesis by (simp add: siftdown.simps)
  next
    case True
    define parentpos where "parentpos = (pos - 1) div 2"
    have pp: "parentpos < pos" using True by (simp add: parentpos_def)
    then have ne: "fst (heap ! parentpos) \<noteq> fst (heap ! pos)"
      using "1.prems" by auto
    then have lt: "item_lt (heap ! pos) (heap ! parentpos) = Inr (fst (heap ! pos) < fst (heap ! parentpos))"
      by (auto simp: item_lt_def)
    show ?thesis
    proof (cases "fst (heap ! pos) < fst (heap ! parentpos)")
      case False
      with lt True "1.prems" show ?thesis
        by (simp add: siftdown.simps[of heap] parentpos_def)
    next
      case lt': True
      let ?h = "heap[parentpos := heap ! pos, pos := heap ! parentpos]"
      have len: "parentpos < length ?h" using pp "1.prems" by simp
      have nt: "\<forall>i < length ?h. i \<noteq> parentpos \<longrightarrow> fst (?h ! i) \<noteq> fst (?h ! parentpos)"
        using "1.prems" pp ne by (auto simp: nth_list_update)
      have "\<exists>heap'. siftdown ?h startpos parentpos = (None, heap') \<and> mset heap' = mset ?h"
        using "1.IH"[OF _ True parentpos_def lt[unfolded parentpos_def[symmetric]] _ len nt] "1.prems" lt' lt
        by (simp add: parentpos_def)
      moreover have "mset ?h = mset heap"
        using mset_swap[of pos heap parentpos] pp "1.prems" by simp
      moreover have "siftdown heap startpos pos = siftdown ?h startpos parentpos"
        using True "1.prems" lt lt' by (simp add: siftdown.simps[of heap] parentpos_def Let_def)
      ultimately show ?thesis by simp
    qed
  qed
qed


text \<open>
  Claim C3, as amended. \<^verbatim>\<open>add_learning_task\<close> does not look at the dataset registry:
  for every dataset name and whatever the registry holds, a submission whose priority
  differs from every queued priority returns without an exception, and the queue then
  holds the items it held before and the new pending task for that name. (The method returns no task
  identifier; an unregistered name is noticed by \<^verbatim>\<open>_load_dataset\<close> when the task is
  executed.)
\<close>

theorem add_learning_task_accepts_any_dataset:
  assumes "prio \<notin> fst ` set (learning_queue s)"
  shows "\<exists>q. (\<forall>registry.
              add_learning_task (s\<lparr>dataset_registry := registry\<rparr>) c name mode prio params
                = (None, s\<lparr>dataset_registry := registry, learning_queue := q\<rparr>))
           \<and> mset q = add_mset (prio, new_task c name mode prio params) (mset (learning_queue s))
           \<and> dataset_name (new_task c name mode prio params) = name
           \<and> status (new_task c name mode prio params) = ''pending''"
proof -
  let ?x = "(prio, new_task c name mode prio params)"
  let ?h = "learning_queue s @ [?x]"
  have a: "length (learning_queue s) < length ?h" by simp
  have b: "\<forall>i < length ?h. i \<noteq> length (learning_queue s)
             \<longrightarrow> fst (?h ! i) \<noteq> fst (?h ! length (learning_queue s))"
  proof (intro allI impI)
    fix i assume "i < length ?h" "i \<noteq> length (learning_queue s)"
    then have i: "i < length (learning_queue s)" by simp
    then have "learning_queue s ! i \<in> set (learning_queue s)" by simp
    with assms have "fst (learning_queue s ! i) \<noteq> prio" by auto
    with i show "fst (?h ! i) \<noteq> fst (?h ! length (learning_queue s))"
      by (simp add: nth_append)
  qed
  from siftdown_no_tie[OF a b, of 0] obtain heap' where
    h: "siftdown ?h 0 (length (learning_queue s)) = (None, heap')" "mset heap' = mset ?h"
    by blast
  then show ?thesis
    by (intro exI[of _ heap']) (simp add: add_learning_task_def heappush_def new_task_def)
qed

theorem add_learning_task_accepts_any_dataset_witness:
  "1 \<notin> fst ` set (learning_queue one_transfer_queued)
   \<and> map_of (dataset_registry one_transfer_queued) ''fashion_mnist'' = None
   \<and> (\<exists>q. add_learning_task one_transfer_queued (clock_at 1700000000.25) ''fashion_mnist''
              SUPERVISED 1 None = (None, one_transfer_queued\<lparr>learning_queue := q\<rparr>)
         \<and> mset q = add_mset (1, unknown_task) (mset (learning_queue one_transfer_queued)))"
proof -
  have h: "1 \<notin> fst ` set (learning_queue one_transfer_queued)"
    by (simp add: queue_eval engine_eval)
  have r: "map_of (dataset_registry one_transfer_queued) ''fashion_mnist'' = None"
    by (simp add: queue_eval engine_eval)
  from add_learning_task_accepts_any_dataset[OF h, of "clock_at 1700000000.25" "''fashion_mnist''"
      SUPERVISED None]
  obtain q where
    q: "\<forall>registry. add_learning_task (one_transfer_queued\<lparr>dataset_registry := registry\<rparr>)
          (clock_at 1700000000.25) ''fashion_mnist'' SUPERVISED 1 None
        = (None, one_transfer_queued\<lparr>dataset_registry := registry, learning_queue := q\<rparr>)"
    and m: "mset q = add_mset (1, new_task (clock_at 1700000000.25) ''fashion_mnist'' SUPERVISED 1 None)
              (mset (learning_queue one_transfer_queued))"
    by blast
  from q[rule_format, of "dataset_registry one_transfer_queued"]
  have "add_learning_task one_transfer_queued (clock_at 1700000000.25) ''fashion_mnist''
          SUPERVISED 1 None = (None, one_transfer_queued\<lparr>learning_queue := q\<rparr>)"
    by simp
  with m h r show ?thesis
    unfolding unknown_task_def by blast
qed


text \<open>
  The claim as the specification states it (a submission for an unregistered dataset
  fails and never enters the queue) is false: \<^verbatim>\<open>fashion_mnist\<close> is not registered, the
  call returns, and the task is in the queue.
\<close>

theorem unregistered_dataset_is_queued:
  "map_of (dataset_registry fresh_engine) ''fashion_mnist'' = None
   \<and> add_learning_task fresh_engine (clock_at 1700000000.25) ''fashion_mnist'' SUPERVISED 1 None
       = (None, fresh_engine\<lparr>learning_queue := [(1, unknown_task)]\<rparr>)"
  by (simp add: queue_eval engine_eval)


text \<open>
  Claim C8. Two submissions get distinct task identifiers, also within the same second.
  The code derives the identifier from the dataset name and the whole seconds of
  \<^verbatim>\<open>time.time()\<close>: two submissions for \<^verbatim>\<open>mnist\<close> half a second apart get the same one.
\<close>

theorem same_second_same_task_id:
  "task_id (new_task (clock_at 1700000000.25) ''mnist'' SUPERVISED 1 None) = ''mnist_1700000000''
   \<and> task_id (new_task (clock_at 1700000000.75) ''mnist'' TRANSFER 2 None) = ''mnist_1700000000''"
  by (simp add: queue_eval)


subsection \<open>Submissions change the queue only\<close>

lemma add_learning_task_frame:
  "(snd (add_learning_task s c name mode prio params))\<lparr>learning_queue := qz\<rparr>
     = s\<lparr>learning_queue := qz\<rparr>"
  by (simp add: add_learning_task_def Let_def)

lemma transfer_inner_frame:
  "(snd (transfer_inner clk d1 ds s))\<lparr>learning_queue := qz\<rparr> = s\<lparr>learning_queue := qz\<rparr>"
proof (induction ds arbitrary: s)
  case Nil
  show ?case by simp
next
  case (Cons d2 ds)
  let ?r = "add_learning_task s (clk d1 d2) d2 TRANSFER 2 (Some [(''source_dataset'', PyStr d1)])"
  have q: "(snd ?r)\<lparr>learning_queue := qz\<rparr> = s\<lparr>learning_queue := qz\<rparr>"
    by (rule add_learning_task_frame)
  show ?case
  proof (cases "are_datasets_compatible s d1 d2")
    case (Inl e)
    then show ?thesis by simp
  next
    case (Inr b)
    show ?thesis
    proof (cases b)
      case False
      with Inr Cons[of s] show ?thesis by simp
    next
      case True
      show ?thesis
      proof (cases "fst ?r")
        case None
        with Inr True Cons[of "snd ?r"] q show ?thesis
          by (cases ?r) simp
      next
        case (Some e)
        with Inr True q show ?thesis
          by (cases ?r) simp
      qed
    qed
  qed
qed

lemma transfer_outer_frame:
  "(snd (transfer_outer clk ds s))\<lparr>learning_queue := qz\<rparr> = s\<lparr>learning_queue := qz\<rparr>"
proof (induction ds arbitrary: s)
  case Nil
  show ?case by simp
next
  case (Cons d1 ds)
  let ?r = "transfer_inner clk d1 ds s"
  have q: "(snd ?r)\<lparr>learning_queue := qz\<rparr> = s\<lparr>learning_queue := qz\<rparr>"
    by (rule transfer_inner_frame)
  show ?case
  proof (cases "fst ?r")
    case None
    with Cons[of "snd ?r"] q show ?thesis by (cases ?r) simp
  next
    case (Some e)
    with q show ?thesis by (cases ?r) simp
  qed
qed

lemma schedule_remediation_frame:
  "(snd (schedule_remediation clk ds s))\<lparr>learning_queue := qz\<rparr> = s\<lparr>learning_queue := qz\<rparr>"
proof (induction ds arbitrary: s)
  case Nil
  show ?case by simp
next
  case (Cons d ds)
  obtain name dataset_info where d: "d = (name, dataset_info)" by (cases d)
  let ?r = "add_learning_task s (clk name) name (info_learning_mode dataset_info) 1
              (Some [(''target_accuracy'', PyFloat 0.8)])"
  have q: "(snd ?r)\<lparr>learning_queue := qz\<rparr> = s\<lparr>learning_queue := qz\<rparr>"
    by (rule add_learning_task_frame)
  show ?case
  proof (cases "get_dataset_accuracy s name < 0.8")
    case False
    with d Cons[of s] show ?thesis by simp
  next
    case True
    show ?thesis
    proof (cases "fst ?r")
      case None
      with d True Cons[of "snd ?r"] q show ?thesis by (cases ?r) simp
    next
      case (Some e)
      with d True q show ?thesis by (cases ?r) simp
    qed
  qed
qed

lemma auto_schedule_learning_frame:
  "(snd (auto_schedule_learning clk1 clk2 s))\<lparr>learning_queue := qz\<rparr> = s\<lparr>learning_queue := qz\<rparr>"
proof -
  let ?r = "schedule_remediation clk1 (dataset_registry s) s"
  have q: "(snd ?r)\<lparr>learning_queue := qz\<rparr> = s\<lparr>learning_queue := qz\<rparr>"
    by (rule schedule_remediation_frame)
  show ?thesis
  proof (cases "fst ?r")
    case None
    with q transfer_outer_frame[where clk = clk2 and s = "snd ?r" and qz = qz
        and ds = "map fst (dataset_registry (snd ?r))"]
    show ?thesis
      by (cases ?r) (simp add: auto_schedule_learning_def schedule_transfer_learning_def)
  next
    case (Some e)
    with q show ?thesis by (cases ?r) (simp add: auto_schedule_learning_def)
  qed
qed


subsection \<open>Accuracies lie between 0 and 1\<close>

lemma calculate_accuracy_bounds:
  "0 \<le> calculate_accuracy predictions y \<and> calculate_accuracy predictions y \<le> 1"
proof -
  let ?n = "length (filter (\<lambda>(row, label). argmax row = label) (zip predictions y))"
  have "?n \<le> length (zip predictions y)" by (rule length_filter_le)
  also have "\<dots> \<le> length y" by simp
  finally have "real ?n \<le> real (length y)" by simp
  then show ?thesis
    by (cases "length y = 0") (simp_all add: calculate_accuracy_def divide_le_eq)
qed

lemma test_accuracy_of_bounds:
  "test_accuracy_of B dataset model = Inr acc \<Longrightarrow> 0 \<le> acc \<and> acc \<le> 1"
  using calculate_accuracy_bounds
  by (auto simp: test_accuracy_of_def split: sum.splits)

lemma training_loop_accuracy:
  "training_loop B dataset epochs model a lg = Inr (model', Some acc, lg')
     \<Longrightarrow> (\<forall>x. a = Some x \<longrightarrow> 0 \<le> x \<and> x \<le> 1) \<Longrightarrow> 0 \<le> acc \<and> acc \<le> 1"
proof (induction epochs arbitrary: model a lg)
  case Nil
  then show ?case by simp
next
  case (Cons epoch epochs)
  from Cons.prems(1) obtain predictions loss m1 where
    l: "calculate_loss B predictions (y_train dataset) = Inr loss"
    and m1: "backward_pass B epoch model = Inr m1"
    and p: "forward_pass B model (X_train dataset) = Inr predictions"
    by (auto split: sum.splits)
  show ?case
  proof (cases "epoch mod 5 = 0")
    case True
    with Cons.prems(1) m1 l p obtain a1 where
      a1: "test_accuracy_of B dataset m1 = Inr a1"
      and r: "training_loop B dataset epochs m1 (Some a1) (lg @ [(epoch, loss, a1)])
                = Inr (model', Some acc, lg')"
      by (auto split: sum.splits)
    from test_accuracy_of_bounds[OF a1] Cons.IH[OF r] show ?thesis by simp
  next
    case False
    with Cons.prems(1) m1 l p have
      r: "training_loop B dataset epochs m1 a lg = Inr (model', Some acc, lg')"
      by (auto split: sum.splits)
    from Cons.IH[OF r] Cons.prems(2) show ?thesis by simp
  qed
qed

lemma registry_ok_dict_set:
  "registry_ok reg \<Longrightarrow> (\<forall>a. mi_accuracy mi = Some a \<longrightarrow> 0 \<le> a \<and> a \<le> 1)
     \<Longrightarrow> registry_ok (dict_set reg k mi)"
  using set_dict_set[of reg k mi] by (fastforce simp: registry_ok_def)

lemma run_strategy_registry:
  assumes "run_strategy B s task dataset = Inr s1" and "registry_ok (model_registry s)"
  shows "registry_ok (model_registry s1)
           \<and> human_intelligence_score s1 = human_intelligence_score s"
proof (cases "learning_mode task")
  case SUPERVISED
  with assms obtain model model' acc logged where
    "training_loop B dataset [0..<epochs_per_task s] model None [] = Inr (model', Some acc, logged)"
    and s1: "s1 = s\<lparr>model_registry := dict_set (model_registry s) (task_id task)
                      \<lparr> mi_model = Some model', mi_centroids = None,
                        mi_reduced_features = None, mi_q_table = None,
                        mi_source_model = None, mi_dataset = dataset_name task,
                        mi_accuracy = Some acc, mi_created_at = now B \<rparr>\<rparr>"
    by (auto simp: run_strategy_def supervised_learning_def split: sum.splits option.splits)
  from training_loop_accuracy[OF this(1)] have "0 \<le> acc \<and> acc \<le> 1" by simp
  with s1 assms(2) show ?thesis by (simp add: registry_ok_dict_set)
next
  case UNSUPERVISED
  with assms show ?thesis
    by (auto simp: run_strategy_def unsupervised_learning_def Let_def registry_ok_dict_set
        split: sum.splits)
next
  case REINFORCEMENT
  with assms show ?thesis
    by (auto simp: run_strategy_def reinforcement_learning_def Let_def registry_ok_dict_set
        split: sum.splits)
next
  case TRANSFER
  with assms show ?thesis
    by (auto simp: run_strategy_def transfer_learning_def registry_ok_dict_set
        split: sum.splits option.splits)
qed


subsection \<open>The score along a history\<close>

lemma update_performance_metrics_score:
  "human_intelligence_score (update_performance_metrics s task) =
     (case map_of (model_registry s) (task_id task) of
        None \<Rightarrow> human_intelligence_score s
      | Some model_info \<Rightarrow>
          (case mi_accuracy model_info of
             None \<Rightarrow> human_intelligence_score s
           | Some a \<Rightarrow> min 1 (human_intelligence_score s + a * 0.1)))"
  by (simp add: update_performance_metrics_def Let_def split: option.splits)

lemma update_performance_metrics_registry:
  "model_registry (update_performance_metrics s task) = model_registry s"
  by (simp add: update_performance_metrics_def Let_def split: option.splits)

lemma update_performance_metrics_ok:
  assumes "score_ok s"
  shows "score_ok (update_performance_metrics s task)
           \<and> human_intelligence_score s \<le> human_intelligence_score (update_performance_metrics s task)"
proof -
  have "0 \<le> a" if "map_of (model_registry s) (task_id task) = Some mi" "mi_accuracy mi = Some a"
    for mi a
  proof -
    from that(1) have "(task_id task, mi) \<in> set (model_registry s)" by (rule map_of_SomeD)
    with assms that(2) show ?thesis by (auto simp: score_ok_def registry_ok_def)
  qed
  with assms show ?thesis
    by (auto simp: score_ok_def update_performance_metrics_score
        update_performance_metrics_registry split: option.splits)
qed

lemma save_model_stores:
  "save_model B s task = Inr s3 \<Longrightarrow>
     model_registry s3 = model_registry s \<and> human_intelligence_score s3 = human_intelligence_score s
       \<and> performance_metrics s3 = performance_metrics s"
  by (auto simp: save_model_def Let_def split: option.splits)

lemma save_model_score:
  "save_model B s task = Inr s3 \<Longrightarrow> human_intelligence_score s3 = human_intelligence_score s"
  by (simp add: save_model_stores)

lemma execute_learning_task_ok:
  assumes "score_ok s"
  shows "score_ok (fst (execute_learning_task B s task))
           \<and> human_intelligence_score s \<le> human_intelligence_score (fst (execute_learning_task B s task))"
proof (cases "load_dataset B s (dataset_name task)")
  case (Inl e)
  with assms show ?thesis by (simp add: execute_learning_task_def)
next
  case (Inr d)
  show ?thesis
  proof (cases d)
    case None
    with Inr assms show ?thesis by (simp add: execute_learning_task_def)
  next
    case (Some dataset)
    show ?thesis
    proof (cases "run_strategy B s (task\<lparr>status := ''running''\<rparr>) dataset")
      case (Inl e)
      with Inr Some assms show ?thesis by (simp add: execute_learning_task_def)
    next
      case s1: (Inr s1)
      from run_strategy_registry[OF s1] assms have ok1: "score_ok s1"
        and eq1: "human_intelligence_score s1 = human_intelligence_score s"
        by (simp_all add: score_ok_def)
      let ?s2 = "update_performance_metrics s1 (task\<lparr>status := ''running''\<rparr>)"
      from update_performance_metrics_ok[OF ok1] have ok2: "score_ok ?s2"
        and le2: "human_intelligence_score s1 \<le> human_intelligence_score ?s2"
        by simp_all
      show ?thesis
      proof (cases "save_model B ?s2 (task\<lparr>status := ''running''\<rparr>)")
        case (Inl e)
        with Inr Some s1 ok2 le2 eq1 show ?thesis
          by (simp add: execute_learning_task_def)
      next
        case s3: (Inr s3)
        from save_model_stores[OF s3] ok2 le2 eq1 have "score_ok s3"
          "human_intelligence_score s \<le> human_intelligence_score s3"
          by (simp_all add: score_ok_def)
        with Inr Some s1 s3 show ?thesis by (simp add: execute_learning_task_def)
      qed
    qed
  qed
qed

lemma score_ok_queue: "score_ok (s\<lparr>learning_queue := q\<rparr>) = score_ok s"
  by (simp add: score_ok_def)

lemma learning_worker_step_ok:
  assumes "score_ok s"
  shows "score_ok (fst (learning_worker_step B s))
           \<and> human_intelligence_score s \<le> human_intelligence_score (fst (learning_worker_step B s))"
proof (cases "learning_queue s = []")
  case True
  with assms show ?thesis by (simp add: learning_worker_step_def)
next
  case False
  obtain r q where p: "heappop (learning_queue s) = (r, q)" by (cases "heappop (learning_queue s)")
  show ?thesis
  proof (cases r)
    case (Inl e)
    with False p assms show ?thesis by (simp add: learning_worker_step_def score_ok_queue)
  next
    case (Inr x)
    obtain prio task where x: "x = (prio, task)" by (cases x)
    from assms have "score_ok (s\<lparr>learning_queue := q\<rparr>)" by (simp add: score_ok_queue)
    from execute_learning_task_ok[OF this, of B task] False p Inr x show ?thesis
      by (simp add: learning_worker_step_def Let_def)
  qed
qed

lemma frame_score_ok:
  assumes "s'\<lparr>learning_queue := []\<rparr> = s\<lparr>learning_queue := []\<rparr>"
  shows "score_ok s' = score_ok s \<and> human_intelligence_score s' = human_intelligence_score s"
proof -
  from assms have "score_ok (s'\<lparr>learning_queue := []\<rparr>) = score_ok (s\<lparr>learning_queue := []\<rparr>)"
    "human_intelligence_score (s'\<lparr>learning_queue := []\<rparr>) = human_intelligence_score (s\<lparr>learning_queue := []\<rparr>)"
    by simp_all
  then show ?thesis by (simp add: score_ok_queue)
qed

lemma step_ok:
  assumes "score_ok s"
  shows "score_ok (step s e) \<and> human_intelligence_score s \<le> human_intelligence_score (step s e)"
proof (cases e)
  case (Submit c name mode prio params)
  with assms frame_score_ok[OF add_learning_task_frame[where s = s and qz = "[]"]]
  show ?thesis by simp
next
  case (AutoSchedule clk1 clk2)
  with assms frame_score_ok[OF auto_schedule_learning_frame[where s = s and qz = "[]"]]
  show ?thesis by simp
next
  case (WorkerStep B)
  with learning_worker_step_ok[OF assms, of B] show ?thesis by simp
qed

lemma run_ok:
  "score_ok s \<Longrightarrow> score_ok (run es s) \<and> human_intelligence_score s \<le> human_intelligence_score (run es s)"
proof (induction es arbitrary: s)
  case Nil
  then show ?case by simp
next
  case (Cons e es)
  from step_ok[OF Cons.prems, of e] Cons.IH[of "step s e"] show ?case by simp
qed

lemma run_append: "run (es @ es') s = run es' (run es s)"
  by (induction es arbitrary: s) simp_all

lemma score_ok_init: "score_ok ContinuousLearningEngine"
  by (simp add: score_ok_def registry_ok_def ContinuousLearningEngine_def)

lemma execute_learning_task_score:
  "human_intelligence_score (fst (execute_learning_task B s task)) =
     (case load_dataset B s (dataset_name task) of
        Inl e \<Rightarrow> human_intelligence_score s
      | Inr None \<Rightarrow> human_intelligence_score s
      | Inr (Some dataset) \<Rightarrow>
          (case run_strategy B s (task\<lparr>status := ''running''\<rparr>) dataset of
             Inl e \<Rightarrow> human_intelligence_score s
           | Inr s1 \<Rightarrow>
               (case map_of (model_registry s1) (task_id task) of
                  None \<Rightarrow> human_intelligence_score s
                | Some model_info \<Rightarrow>
                    (case mi_accuracy model_info of
                       None \<Rightarrow> human_intelligence_score s
                     | Some accuracy \<Rightarrow> min 1 (human_intelligence_score s + accuracy * 0.1)))))"
proof (cases "load_dataset B s (dataset_name task)")
  case (Inl e)
  then show ?thesis by (simp add: execute_learning_task_def)
next
  case (Inr d)
  show ?thesis
  proof (cases d)
    case None
    with Inr show ?thesis by (simp add: execute_learning_task_def)
  next
    case (Some dataset)
    show ?thesis
    proof (cases "run_strategy B s (task\<lparr>status := ''running''\<rparr>) dataset")
      case (Inl e)
      with Inr Some show ?thesis by (simp add: execute_learning_task_def)
    next
      case s1: (Inr s1)
      let ?t = "task\<lparr>status := ''running''\<rparr>"
      let ?s2 = "update_performance_metrics s1 ?t"
      have eq1: "human_intelligence_score s1 = human_intelligence_score s"
        using s1
        by (cases "learning_mode task")
           (auto simp: run_strategy_def supervised_learning_def unsupervised_learning_def
              reinforcement_learning_def transfer_learning_def Let_def
              split: sum.splits option.splits)
      have eq2: "human_intelligence_score (fst (execute_learning_task B s task))
                   = human_intelligence_score ?s2"
        using Inr Some s1 save_model_score[of B ?s2 ?t]
        by (cases "save_model B ?s2 ?t") (simp_all add: execute_learning_task_def)
      show ?thesis
        using Inr Some s1 eq1
        by (simp add: eq2 update_performance_metrics_score split: option.splits)
    qed
  qed
qed


text \<open>
  Claim C4, as amended. The score is 0 on the engine that \<^verbatim>\<open>__init__\<close> builds; after
  every history of submissions, scheduler runs and worker iterations it lies in [0, 1];
  it never decreases when a history is continued; and executing a task changes it in
  \<^verbatim>\<open>_update_performance_metrics\<close> only: if the strategy has returned and the model
  registry then holds, under the identifier of the task, a record with an accuracy, the
  score becomes \<open>min 1 (score + accuracy * 0.1)\<close>, and otherwise it stays as it is.
\<close>

theorem human_intelligence_score_invariants:
  "get_human_intelligence_score (ContinuousLearningEngine :: 'a engine) = 0
   \<and> 0 \<le> get_human_intelligence_score (run es (ContinuousLearningEngine :: 'a engine))
   \<and> get_human_intelligence_score (run es (ContinuousLearningEngine :: 'a engine)) \<le> 1
   \<and> get_human_intelligence_score (run es (ContinuousLearningEngine :: 'a engine))
        \<le> get_human_intelligence_score (run (es @ es') (ContinuousLearningEngine :: 'a engine))
   \<and> get_human_intelligence_score (fst (execute_learning_task B s task)) =
       (case load_dataset B s (dataset_name task) of
          Inl e \<Rightarrow> get_human_intelligence_score s
        | Inr None \<Rightarrow> get_human_intelligence_score s
        | Inr (Some dataset) \<Rightarrow>
            (case run_strategy B s (task\<lparr>status := ''running''\<rparr>) dataset of
               Inl e \<Rightarrow> get_human_intelligence_score s
             | Inr s1 \<Rightarrow>
                 (case map_of (model_registry s1) (task_id task) of
                    None \<Rightarrow> get_human_intelligence_score s
                  | Some model_info \<Rightarrow>
                      (case mi_accuracy model_info of
                         None \<Rightarrow> get_human_intelligence_score s
                       | Some accuracy \<Rightarrow>
                           min 1 (get_human_intelligence_score s + accuracy * 0.1)))))"
proof -
  let ?init = "ContinuousLearningEngine :: 'a engine"
  have a: "score_ok (run es ?init)"
    using run_ok[OF score_ok_init, of es] by simp
  have b: "human_intelligence_score (run es ?init)
             \<le> human_intelligence_score (run (es @ es') ?init)"
    using run_ok[OF a, of es'] by (simp add: run_append)
  have c: "human_intelligence_score ?init = 0"
    by (simp add: ContinuousLearningEngine_def)
  from a b c show ?thesis
    unfolding get_human_intelligence_score_def execute_learning_task_score
    by (simp add: score_ok_def)
qed


text \<open>
  The claim as stated (the score changes only when a completed task yields an accuracy)
  is false: when the file of the model cannot be written, the task ends \<^verbatim>\<open>failed\<close>, and
  the score has moved from 0 to 0.1.
\<close>

theorem score_changes_for_failed_task:
  "get_human_intelligence_score fresh_engine = 0
   \<and> status (snd (execute_learning_task failing_disk_backend fresh_engine rice_task)) = ''failed''
   \<and> get_human_intelligence_score
        (fst (execute_learning_task failing_disk_backend fresh_engine rice_task)) = 0.1"
  by (simp add: queue_eval engine_eval)


subsection \<open>Executing a task\<close>

text \<open>
  Claim C2. A task whose dataset is not in the registry ends \<^verbatim>\<open>failed\<close>. The code
  returns from \<^verbatim>\<open>_execute_learning_task\<close> as soon as \<^verbatim>\<open>_load_dataset\<close> gives \<^verbatim>\<open>None\<close>:
  the engine is unchanged and the status of the task stays \<^verbatim>\<open>running\<close>.
\<close>

theorem unknown_dataset_stays_running:
  assumes "map_of (dataset_registry s) (dataset_name task) = None"
  shows "execute_learning_task B s task = (s, task\<lparr>status := ''running''\<rparr>)"
  using assms
  by (simp add: execute_learning_task_def load_dataset_def)

theorem unknown_dataset_stays_running_witness:
  "map_of (dataset_registry fresh_engine) (dataset_name unknown_task) = None
   \<and> execute_learning_task sample_backend fresh_engine unknown_task
       = (fresh_engine, unknown_task\<lparr>status := ''running''\<rparr>)"
proof -
  have h: "map_of (dataset_registry fresh_engine) (dataset_name unknown_task) = None"
    by (simp add: queue_eval engine_eval)
  from unknown_dataset_stays_running[OF h] h show ?thesis by blast
qed


text \<open>
  Claim C5, as amended. A task that ends \<^verbatim>\<open>failed\<close> leaves the engine exactly as it was
  before the task, so with no record and no metrics entry written for it, unless the
  exception was raised by \<^verbatim>\<open>_save_model\<close>, that is after the strategy had returned and
  the metrics had been updated.
\<close>

theorem failed_task_stores:
  assumes "execute_learning_task B s task = (s', task')" and "status task' = ''failed''"
  shows "s' = s
     \<or> (\<exists>dataset s1 e.
           load_dataset B s (dataset_name task) = Inr (Some dataset)
         \<and> run_strategy B s (task\<lparr>status := ''running''\<rparr>) dataset = Inr s1
         \<and> save_model B (update_performance_metrics s1 (task\<lparr>status := ''running''\<rparr>))
               (task\<lparr>status := ''running''\<rparr>) = Inl e
         \<and> s' = update_performance_metrics s1 (task\<lparr>status := ''running''\<rparr>))"
  using assms
  by (auto simp: execute_learning_task_def Let_def split: sum.splits option.splits)

theorem failed_task_stores_witness:
  "execute_learning_task out_of_memory_backend fresh_engine rice_task
     = (fresh_engine, rice_task\<lparr>status := ''failed''\<rparr>)
   \<and> status (rice_task\<lparr>status := ''failed''\<rparr>) = ''failed''
   \<and> (fresh_engine = fresh_engine
       \<or> (\<exists>dataset s1 e.
             load_dataset out_of_memory_backend fresh_engine (dataset_name rice_task)
               = Inr (Some dataset)
           \<and> run_strategy out_of_memory_backend fresh_engine (rice_task\<lparr>status := ''running''\<rparr>)
               dataset = Inr s1
           \<and> save_model out_of_memory_backend
               (update_performance_metrics s1 (rice_task\<lparr>status := ''running''\<rparr>))
               (rice_task\<lparr>status := ''running''\<rparr>) = Inl e
           \<and> fresh_engine = update_performance_metrics s1 (rice_task\<lparr>status := ''running''\<rparr>)))"
proof -
  have h1: "execute_learning_task out_of_memory_backend fresh_engine rice_task
     = (fresh_engine, rice_task\<lparr>status := ''failed''\<rparr>)"
    by (simp add: queue_eval engine_eval)
  have h2: "status (rice_task\<lparr>status := ''failed''\<rparr>) = ''failed''"
    by simp
  from failed_task_stores[OF h1 h2] h1 h2 show ?thesis by blast
qed


text \<open>
  The claim as stated (no record and no metrics entry for any failed task, wherever the
  exception is raised) is false: when the file cannot be written the task ends \<^verbatim>\<open>failed\<close>,
  and the registry and the metrics, which had no entry for it, hold one.
\<close>

theorem failed_task_keeps_records:
  "status (snd (execute_learning_task failing_disk_backend fresh_engine rice_task)) = ''failed''
   \<and> map_of (model_registry fresh_engine) (task_id rice_task) = None
   \<and> map_of (performance_metrics fresh_engine) (task_id rice_task) = None
   \<and> map_option mi_dataset
        (map_of (model_registry (fst (execute_learning_task failing_disk_backend fresh_engine rice_task)))
           (task_id rice_task)) = Some ''rice_msc''
   \<and> map_option pm_dataset
        (map_of (performance_metrics (fst (execute_learning_task failing_disk_backend fresh_engine rice_task)))
           (task_id rice_task)) = Some ''rice_msc''"
  by (simp add: queue_eval engine_eval)







subsection \<open>The supervised training loop\<close>












subsection \<open>The auto-scheduler\<close>

text \<open>
  The compatibility test itself is the one of the specification: the ratio of the
  feature counts exceeds one half exactly when the larger count is less than twice the
  smaller one. On the fresh engine \<^verbatim>\<open>_schedule_transfer_learning\<close>, called on its own,
  queues one task, the transfer from \<^verbatim>\<open>rice_msc\<close> (106 features) to \<^verbatim>\<open>human_faces\<close>
  (128 features).
\<close>

lemma are_datasets_compatible_ratio:
  assumes "map_of (dataset_registry s) dataset1 = Some info1"
    and "map_of (dataset_registry s) dataset2 = Some info2"
    and "0 < max (features info1) (features info2)"
  shows "are_datasets_compatible s dataset1 dataset2
           = Inr (max (features info1) (features info2) < 2 * min (features info1) (features info2))"
proof -
  define a where "a = min (features info1) (features info2)"
  define b where "b = max (features info1) (features info2)"
  have b0: "0 < b" using assms(3) by (simp only: b_def)
  have "(0.5 < real a / real b) = (real b < 2 * real a)"
    using b0 by (simp add: field_simps)
  also have "\<dots> = (b < 2 * a)"
    by (metis of_nat_less_iff of_nat_mult of_nat_numeral)
  finally have eq: "(0.5 < real a / real b) = (b < 2 * a)" .
  have "are_datasets_compatible s dataset1 dataset2
          = (if b = 0 then Inl ZeroDivisionError else Inr (0.5 < real a / real b))"
    unfolding a_def b_def are_datasets_compatible_def Let_def
    by (simp only: assms(1,2) option.case)
  with b0 eq have "are_datasets_compatible s dataset1 dataset2 = Inr (b < 2 * a)"
    by simp
  then show ?thesis unfolding a_def b_def .
qed

lemma schedule_transfer_learning_alone:
  "fst (schedule_transfer_learning (\<lambda>dataset1 dataset2. clock_at 1700000000.25) fresh_engine) = None
   \<and> map (\<lambda>x. (fst x, dataset_name (snd x), learning_mode (snd x), parameters (snd x)))
        (learning_queue (snd (schedule_transfer_learning
           (\<lambda>dataset1 dataset2. clock_at 1700000000.25) fresh_engine)))
       = [(2, ''human_faces'', TRANSFER, [(''source_dataset'', PyStr ''rice_msc'')])]"
  by (simp add: queue_eval engine_eval scheduler_eval)


text \<open>
  Claim C7. \<^verbatim>\<open>auto_schedule_learning\<close> submits a transfer task for every compatible pair
  of datasets, the pair with 106 and 128 features among them. On the fresh engine it
  does not get that far: the first loop submits a remediation task for \<^verbatim>\<open>rice_msc\<close>,
  the submission for \<^verbatim>\<open>human_faces\<close> at the same priority raises \<^verbatim>\<open>TypeError\<close>, and the
  queue holds no transfer task.
\<close>

theorem auto_schedule_on_fresh_engine_raises:
  "fst (auto_schedule_learning (\<lambda>name. clock_at 1700000000.25)
          (\<lambda>dataset1 dataset2. clock_at 1700000000.25) fresh_engine) = Some TypeError
   \<and> map (\<lambda>x. (fst x, dataset_name (snd x), learning_mode (snd x)))
        (learning_queue (snd (auto_schedule_learning (\<lambda>name. clock_at 1700000000.25)
          (\<lambda>dataset1 dataset2. clock_at 1700000000.25) fresh_engine)))
       = [(1, ''rice_msc'', SUPERVISED), (1, ''human_faces'', SUPERVISED)]"
  by (simp add: queue_eval engine_eval scheduler_eval)


text \<open>
  Claim C6. A dataset whose most recent recorded accuracy is at least 0.8 gets no
  remediation task. \<^verbatim>\<open>_get_dataset_accuracy\<close> returns the first recorded accuracy: after
  two runs on \<^verbatim>\<open>rice_msc\<close> with accuracies 0 and then 1 it returns 0, and the scheduler
  submits a remediation task for \<^verbatim>\<open>rice_msc\<close> (and then stops at the tie of the next
  submission).
\<close>

theorem remediation_uses_first_recorded_accuracy:
  "map (\<lambda>x. (fst x, pm_dataset (snd x), pm_accuracy (snd x)))
       (performance_metrics (run two_rice_runs fresh_engine))
     = [(''rice_msc_1700000000'', ''rice_msc'', 0), (''rice_msc_1700000200'', ''rice_msc'', 1)]
   \<and> get_dataset_accuracy (run two_rice_runs fresh_engine) ''rice_msc'' = 0
   \<and> map (\<lambda>x. (fst x, dataset_name (snd x), parameters (snd x)))
        (learning_queue (snd (auto_schedule_learning (\<lambda>name. clock_at 1700000400.25)
          (\<lambda>dataset1 dataset2. clock_at 1700000400.25) (run two_rice_runs fresh_engine))))
       = [(1, ''rice_msc'', [(''target_accuracy'', PyFloat 0.8)]),
          (1, ''human_faces'', [(''target_accuracy'', PyFloat 0.8)])]"
  by (simp add: queue_eval engine_eval scheduler_eval two_rice_runs_def)

end
